theory Spec2Isabelle
  imports Main "HOL-Library.Word" "HOL-Library.Char_ord" "HOL-Library.List_Lexorder"
begin

unbundle bit_operations_syntax

section \<open>Variant: the tagged value of src/common.h\<close>

text \<open>
  \<^verbatim>\<open>struct Variant\<close> is a discriminant \<^verbatim>\<open>type\<close> beside an anonymous union. The
  discriminant and the union are separate fields in the source, and the assignment
  operators write one without the other, so the model keeps them separate as well:
  a \<open>Variant\<close> is a tag together with the union member that was written last.
  Pointers and \<^verbatim>\<open>long long\<close> are 64-bit words; a \<^verbatim>\<open>double\<close> is its IEEE-754 binary64
  bit pattern.
\<close>

type_synonym addr = "64 word"
type_synonym ll = "64 word"
type_synonym double = "64 word"

datatype Type = Type_NIL | Type_BOOL | Type_FLOAT | Type_INT | Type_STRING | Type_STRING_VIEW | Type_ARRAY | Type_VARIABLE | Type_POINTER

datatype payload =
    U_indeterminate
  | U_b bool
  | U_f double
  | U_i ll
  | U_s string
  | U_p addr
  | U_v addr
  | U_a "Variant list"
  | U_view addr nat
and Variant = Variant (type: Type) (payload: payload)

text \<open>
  Reading a union member. A member that is not the one written last has no value the
  program text determines: the read is \<open>None\<close>. The three pointer members
  (\<^verbatim>\<open>p\<close>, \<^verbatim>\<open>v.pointer\<close>, \<^verbatim>\<open>view\<close>) all sit at offset 0 with the same
  representation, and the source reads \<^verbatim>\<open>p\<close> for all three kinds on purpose
  (the \<^verbatim>\<open>default\<close> cases of \<^verbatim>\<open>operator==\<close>, \<^verbatim>\<open>operator<\<close> and \<^verbatim>\<open>hash\<close>).
\<close>

fun rd_b :: "payload \<Rightarrow> bool option" where
  "rd_b (U_b b) = Some b"
| "rd_b _ = None"

fun rd_f :: "payload \<Rightarrow> double option" where
  "rd_f (U_f f) = Some f"
| "rd_f _ = None"

fun rd_i :: "payload \<Rightarrow> ll option" where
  "rd_i (U_i i) = Some i"
| "rd_i _ = None"

fun rd_s :: "payload \<Rightarrow> string option" where
  "rd_s (U_s s) = Some s"
| "rd_s _ = None"

fun rd_a :: "payload \<Rightarrow> Variant list option" where
  "rd_a (U_a a) = Some a"
| "rd_a _ = None"

fun rd_p :: "payload \<Rightarrow> addr option" where
  "rd_p (U_p p) = Some p"
| "rd_p (U_v p) = Some p"
| "rd_p (U_view p n) = Some p"
| "rd_p _ = None"

fun rd_view :: "payload \<Rightarrow> (addr \<times> nat) option" where
  "rd_view (U_view p n) = Some (p, n)"
| "rd_view _ = None"

subsection \<open>Constructors\<close>

definition Variant_default :: Variant where
  "Variant_default = Variant Type_NIL U_indeterminate"

definition Variant_bool :: "bool \<Rightarrow> Variant" where
  "Variant_bool b = Variant Type_BOOL (U_b b)"

definition Variant_double :: "double \<Rightarrow> Variant" where
  "Variant_double f = Variant Type_FLOAT (U_f f)"

definition Variant_ll :: "ll \<Rightarrow> Variant" where
  "Variant_ll i = Variant Type_INT (U_i i)"

definition Variant_string :: "string \<Rightarrow> Variant" where
  "Variant_string s = Variant Type_STRING (U_s s)"

definition Variant_view :: "addr \<Rightarrow> nat \<Rightarrow> Variant" where
  "Variant_view view len = Variant Type_STRING_VIEW (U_view view len)"

definition Variant_Variable :: "addr \<Rightarrow> Variant" where
  "Variant_Variable v = Variant Type_VARIABLE (U_v v)"

definition Variant_ptr :: "addr \<Rightarrow> Variant" where
  "Variant_ptr p = Variant (if p \<noteq> 0 then Type_POINTER else Type_NIL) (U_p p)"

definition Variant_nullptr :: Variant where
  "Variant_nullptr = Variant Type_NIL (U_p 0)"

definition Variant_vector :: "Variant list \<Rightarrow> Variant" where
  "Variant_vector a = Variant Type_ARRAY (U_a a)"

subsection \<open>Truthiness\<close>

definition FALSY_FALSE :: "32 word" where "FALSY_FALSE = 0"
definition FALSY_0 :: "32 word" where "FALSY_0 = 1"
definition FALSY_EMPTY_STRING :: "32 word" where "FALSY_EMPTY_STRING = 2"
definition FALSY_NIL :: "32 word" where "FALSY_NIL = 4"

text \<open>\<^verbatim>\<open>!f\<close> on a double: true for \<open>+0.0\<close> and \<open>-0.0\<close>, false for everything else,
  NaN included.\<close>

definition double_is_zero :: "double \<Rightarrow> bool" where
  "double_is_zero f = (f AND 0x7FFFFFFFFFFFFFFF = 0)"

text \<open>\<^verbatim>\<open>(falsiness & FLAG) && !x\<close> evaluates \<^verbatim>\<open>x\<close> only when the flag is set.\<close>

definition flag_and :: "32 word \<Rightarrow> 32 word \<Rightarrow> bool option \<Rightarrow> bool option" where
  "flag_and falsiness flag rhs =
     (if falsiness AND flag \<noteq> 0 then rhs else Some False)"

definition isTruthy :: "Variant \<Rightarrow> 32 word \<Rightarrow> bool option" where
  "isTruthy v falsiness =
     (case type v of
        Type_BOOL \<Rightarrow> rd_b (payload v)
      | Type_INT \<Rightarrow> map_option Not
          (flag_and falsiness FALSY_0 (map_option (\<lambda>i. i = 0) (rd_i (payload v))))
      | Type_FLOAT \<Rightarrow> map_option Not
          (flag_and falsiness FALSY_0 (map_option double_is_zero (rd_f (payload v))))
      | Type_POINTER \<Rightarrow> map_option Not
          (flag_and falsiness FALSY_NIL (map_option (\<lambda>p. p = 0) (rd_p (payload v))))
      | Type_NIL \<Rightarrow> Some (\<not> (falsiness AND FALSY_NIL \<noteq> 0))
      | Type_STRING \<Rightarrow> map_option Not
          (flag_and falsiness FALSY_EMPTY_STRING
             (map_option (\<lambda>s. length s = 0) (rd_s (payload v))))
      | _ \<Rightarrow> Some True)"

subsection \<open>Number formatting of the C and C++ libraries\<close>

text \<open>
  \<^verbatim>\<open>getString\<close> calls \<^verbatim>\<open>std::to_string(long long)\<close> and \<^verbatim>\<open>snprintf(buffer, 512, "%f", f)\<close>.
  Both are library functions; they are modelled here by what they print. \<open>dec\<close> is
  the decimal numeral of a natural number. \<open>printf_f\<close> is the \<^verbatim>\<open>%f\<close> conversion of a
  binary64 value: the exact value rounded to six fractional digits, ties to even (the
  default rounding mode), and \<^verbatim>\<open>inf\<close>, \<^verbatim>\<open>nan\<close> with their sign as glibc prints them.
\<close>

definition digit_char :: "nat \<Rightarrow> char" where
  "digit_char d = ''0123456789'' ! d"

function dec :: "nat \<Rightarrow> string" where
  "dec n = (if n < 10 then [digit_char n] else dec (n div 10) @ [digit_char (n mod 10)])"
  by pat_completeness auto
termination
  by (relation "measure id") auto

declare dec.simps [simp del]

definition to_string :: "ll \<Rightarrow> string" where
  "to_string i = (if sint i < 0 then CHR ''-'' # dec (nat (- sint i)) else dec (nat (sint i)))"

definition double_sign :: "double \<Rightarrow> bool" where
  "double_sign f = bit f 63"

definition double_exponent :: "double \<Rightarrow> nat" where
  "double_exponent f = unat (take_bit 11 (drop_bit 52 f))"

definition double_fraction :: "double \<Rightarrow> nat" where
  "double_fraction f = unat (take_bit 52 f)"

definition double_is_nan :: "double \<Rightarrow> bool" where
  "double_is_nan f = (double_exponent f = 2047 \<and> double_fraction f \<noteq> 0)"

definition double_is_inf :: "double \<Rightarrow> bool" where
  "double_is_inf f = (double_exponent f = 2047 \<and> double_fraction f = 0)"

definition double_mantissa :: "double \<Rightarrow> nat" where
  "double_mantissa f =
     (if double_exponent f = 0 then double_fraction f else 2 ^ 52 + double_fraction f)"

definition double_exp2 :: "double \<Rightarrow> int" where
  "double_exp2 f = (if double_exponent f = 0 then - 1074 else int (double_exponent f) - 1075)"

definition round_half_even :: "nat \<Rightarrow> nat \<Rightarrow> nat" where
  "round_half_even n d =
     (let q = n div d; r = n mod d
      in if 2 * r > d \<or> (2 * r = d \<and> odd q) then q + 1 else q)"

definition scaled6 :: "double \<Rightarrow> nat" where
  "scaled6 f =
     (if double_exp2 f \<ge> 0 then double_mantissa f * 2 ^ nat (double_exp2 f) * 10 ^ 6
      else round_half_even (double_mantissa f * 10 ^ 6) (2 ^ nat (- double_exp2 f)))"

definition pad6 :: "string \<Rightarrow> string" where
  "pad6 s = drop (length s) ''000000'' @ s"

definition printf_f :: "double \<Rightarrow> string" where
  "printf_f f =
     (if double_sign f then ''-'' else '''') @
     (if double_is_nan f then ''nan''
      else if double_is_inf f then ''inf''
      else dec (scaled6 f div 10 ^ 6) @ ''.'' @ pad6 (dec (scaled6 f mod 10 ^ 6)))"


subsection \<open>String form\<close>

text \<open>
  A \<^verbatim>\<open>STRING_VIEW\<close> holds a pointer into memory the Variant does not own. The memory
  is a parameter of every function that follows the pointer: \<open>mem a\<close> is the bytes
  stored from address \<open>a\<close> to the end of its buffer. \<^verbatim>\<open>string(view, len)\<close> reads
  \<open>len\<close> of them; reading more than the buffer holds is \<open>None\<close>.
\<close>

type_synonym memory = "addr \<Rightarrow> string"

definition string_of_view :: "memory \<Rightarrow> addr \<Rightarrow> nat \<Rightarrow> string option" where
  "string_of_view mem view len =
     (if len \<le> length (mem view) then Some (take len (mem view)) else None)"

text \<open>
  The two \<^verbatim>\<open>for\<close> loops of the \<^verbatim>\<open>FLOAT\<close> case of \<^verbatim>\<open>getString\<close>, over the buffer
  \<^verbatim>\<open>snprintf\<close> filled (at most 511 characters) and the length it returned.
\<close>

function find_dot :: "string \<Rightarrow> nat \<Rightarrow> nat \<Rightarrow> nat" where
  "find_dot buffer len i =
     (if i < len \<and> buffer ! i \<noteq> CHR ''.'' then find_dot buffer len (i + 1) else i)"
  by pat_completeness auto
termination
  by (relation "measure (\<lambda>(buffer, len, i). len - i)") auto

function trim_zeros :: "string \<Rightarrow> nat \<Rightarrow> nat \<Rightarrow> nat \<Rightarrow> nat" where
  "trim_zeros buffer len i j =
     (if i < len \<and> j > i \<and> buffer ! (j - 1) = CHR ''0''
      then trim_zeros buffer len i (j - 1) else j)"
  by pat_completeness auto
termination
  by (relation "measure (\<lambda>(buffer, len, i, j). j)") auto

declare find_dot.simps [simp del] trim_zeros.simps [simp del]

definition trim_buffer :: "string \<Rightarrow> string" where
  "trim_buffer s =
     (let buffer = take 511 s;
          len = length s;
          i = find_dot buffer len 0;
          j = trim_zeros buffer len i len
      in take (if j = i + 1 then i else j) buffer)"

definition float_to_string :: "double \<Rightarrow> string" where
  "float_to_string f = trim_buffer (printf_f f)"

definition getString :: "memory \<Rightarrow> Variant \<Rightarrow> string option" where
  "getString mem v =
     (case type v of
        Type_STRING \<Rightarrow> rd_s (payload v)
      | Type_STRING_VIEW \<Rightarrow>
          (case rd_view (payload v) of
             None \<Rightarrow> None
           | Some (view, len) \<Rightarrow> string_of_view mem view len)
      | Type_FLOAT \<Rightarrow> map_option float_to_string (rd_f (payload v))
      | Type_INT \<Rightarrow> map_option to_string (rd_i (payload v))
      | Type_BOOL \<Rightarrow> map_option (\<lambda>b. if b then ''true'' else ''false'') (rd_b (payload v))
      | _ \<Rightarrow> Some [])"

text \<open>
  The specification's wording of the \<^verbatim>\<open>FLOAT\<close> case, to compare \<open>trim_buffer\<close> with: cut
  the rendering at its first decimal point, drop the trailing zeros of the fraction, and
  drop the point too when no fraction digit is left.
\<close>

definition trim_fraction :: "string \<Rightarrow> string" where
  "trim_fraction s =
     (let ip = takeWhile (\<lambda>c. c \<noteq> CHR ''.'') s;
          rest = dropWhile (\<lambda>c. c \<noteq> CHR ''.'') s
      in if rest = [] then s
         else (let fr = rev (dropWhile (\<lambda>c. c = CHR ''0'') (rev (tl rest)))
               in if fr = [] then ip else ip @ ''.'' @ fr))"

subsection \<open>Number parsing of the C library\<close>

text \<open>
  \<^verbatim>\<open>getInt\<close> and \<^verbatim>\<open>getFloat\<close> call \<^verbatim>\<open>atoll\<close> and \<^verbatim>\<open>atof\<close> on \<^verbatim>\<open>s.c_str()\<close>. Both are
  library functions, modelled on the C locale: white space is skipped, a sign is read,
  then the longest prefix that is a number. \<open>atoll\<close> is \<^verbatim>\<open>strtoll(nptr, NULL, 10)\<close> as
  glibc has it, clamped to the range of \<^verbatim>\<open>long long\<close>. \<open>atof\<close> is \<^verbatim>\<open>strtod(nptr, NULL)\<close>:
  decimal and hexadecimal floating constants, \<^verbatim>\<open>inf\<close> and \<^verbatim>\<open>nan\<close>, rounded to the nearest
  binary64 value, ties to even; a NaN is the quiet NaN with the payload glibc gives it.
  When no conversion can be performed both return zero.
\<close>

definition isspace :: "char \<Rightarrow> bool" where
  "isspace c = (c = CHR '' '' \<or> (CHR 0x09 \<le> c \<and> c \<le> CHR 0x0D))"

definition isdigit :: "char \<Rightarrow> bool" where
  "isdigit c = (CHR ''0'' \<le> c \<and> c \<le> CHR ''9'')"

definition isxdigit :: "char \<Rightarrow> bool" where
  "isxdigit c = (isdigit c \<or> (CHR ''a'' \<le> c \<and> c \<le> CHR ''f'') \<or> (CHR ''A'' \<le> c \<and> c \<le> CHR ''F''))"

definition eq_ci :: "char \<Rightarrow> char \<Rightarrow> bool" where
  "eq_ci c l = (c = l \<or> (CHR ''A'' \<le> c \<and> c \<le> CHR ''Z'' \<and> of_char c + (32::nat) = of_char l))"

definition xdigit_val :: "char \<Rightarrow> nat" where
  "xdigit_val c =
     (if isdigit c then of_char c - 48
      else if CHR ''a'' \<le> c \<and> c \<le> CHR ''f'' then of_char c - 87
      else of_char c - 55)"

definition digits_val :: "nat \<Rightarrow> string \<Rightarrow> nat" where
  "digits_val base ds = foldl (\<lambda>a c. a * base + xdigit_val c) 0 ds"

definition c_str :: "string \<Rightarrow> string" where
  "c_str s = takeWhile (\<lambda>c. c \<noteq> CHR 0x00) s"

definition is_sign :: "string \<Rightarrow> bool" where
  "is_sign s = (s \<noteq> [] \<and> (hd s = CHR ''-'' \<or> hd s = CHR ''+''))"

definition is_minus :: "string \<Rightarrow> bool" where
  "is_minus s = (s \<noteq> [] \<and> hd s = CHR ''-'')"

definition skip_sign :: "string \<Rightarrow> string" where
  "skip_sign s = (if is_sign s then tl s else s)"

definition atoll :: "string \<Rightarrow> ll" where
  "atoll nptr =
     (let s = dropWhile isspace nptr;
          n = digits_val 10 (takeWhile isdigit (skip_sign s))
      in if is_minus s
         then (if n > 2 ^ 63 then 0x8000000000000000 else word_of_int (- int n))
         else (if n > 2 ^ 63 - 1 then 0x7FFFFFFFFFFFFFFF else word_of_nat n))"

fun bitlen :: "nat \<Rightarrow> nat" where
  "bitlen n = (if n = 0 then 0 else Suc (bitlen (n div 2)))"

declare bitlen.simps [simp del]

definition floor_log2 :: "nat \<Rightarrow> nat \<Rightarrow> int" where
  "floor_log2 num den =
     (let k = int (bitlen num) - int (bitlen den)
      in if num * 2 ^ nat (- k) \<ge> den * 2 ^ nat k then k else k - 1)"

definition round_to_double :: "nat \<Rightarrow> nat \<Rightarrow> double" where
  "round_to_double num den =
     (if num = 0 then 0
      else
        (let q = max (floor_log2 num den - 52) (- 1074);
             m = round_half_even (num * 2 ^ nat (- q)) (den * 2 ^ nat q);
             bits = nat (q + 1074) * 2 ^ 52 + m
         in if bits \<ge> 0x7FF0000000000000 then 0x7FF0000000000000 else word_of_nat bits))"

definition scale_to_double :: "nat \<Rightarrow> nat \<Rightarrow> int \<Rightarrow> double" where
  "scale_to_double base m e =
     (if e \<ge> 0 then round_to_double (m * base ^ nat e) 1
      else round_to_double m (base ^ nat (- e)))"

definition exponent_part :: "char \<Rightarrow> string \<Rightarrow> int" where
  "exponent_part marker r =
     (if r \<noteq> [] \<and> eq_ci (hd r) marker
      then (let ds = takeWhile isdigit (skip_sign (tl r)) in
            if ds = [] then 0
            else if is_minus (tl r) then - int (digits_val 10 ds) else int (digits_val 10 ds))
      else 0)"

definition number_body :: "(char \<Rightarrow> bool) \<Rightarrow> string \<Rightarrow> string \<times> string \<times> string" where
  "number_body isd s =
     (let ip = takeWhile isd s; r1 = dropWhile isd s
      in if r1 \<noteq> [] \<and> hd r1 = CHR ''.''
         then (ip, takeWhile isd (tl r1), dropWhile isd (tl r1))
         else (ip, [], r1))"

definition has_prefix_ci :: "string \<Rightarrow> string \<Rightarrow> bool" where
  "has_prefix_ci p s = (length p \<le> length s \<and> list_all2 eq_ci (take (length p) s) p)"

text \<open>
  \<^verbatim>\<open>nan(n-char-sequence)\<close>: glibc reads the sequence (letters, digits, underscores, closed by
  a parenthesis) with \<^verbatim>\<open>strtoull\<close> in base 0 and, when that consumes all of it, stores the
  low 51 bits of the number as the payload of the quiet NaN. \<open>strtoull0\<close> is that call on a
  sequence with no white space and no sign: the value, clamped to 64 bits, and the number
  of characters read.
\<close>

definition isoctal :: "char \<Rightarrow> bool" where
  "isoctal c = (CHR ''0'' \<le> c \<and> c \<le> CHR ''7'')"

definition is_nchar :: "char \<Rightarrow> bool" where
  "is_nchar c =
     (isdigit c \<or> (CHR ''a'' \<le> c \<and> c \<le> CHR ''z'') \<or> (CHR ''A'' \<le> c \<and> c \<le> CHR ''Z'')
      \<or> c = CHR ''_'')"

definition strtoull0 :: "string \<Rightarrow> nat \<times> nat" where
  "strtoull0 s =
     (let hx = takeWhile isxdigit (drop 2 s);
          oc = takeWhile isoctal s;
          de = takeWhile isdigit s
      in if has_prefix_ci ''0x'' s \<and> hx \<noteq> []
         then (min (digits_val 16 hx) (2 ^ 64 - 1), 2 + length hx)
         else if s \<noteq> [] \<and> hd s = CHR ''0''
         then (min (digits_val 8 oc) (2 ^ 64 - 1), length oc)
         else (min (digits_val 10 de) (2 ^ 64 - 1), length de))"

definition nan_bits :: "string \<Rightarrow> double" where
  "nan_bits r =
     (if r \<noteq> [] \<and> hd r = CHR ''(''
      then (let seq = takeWhile is_nchar (tl r);
                rest = dropWhile is_nchar (tl r)
            in if rest \<noteq> [] \<and> hd rest = CHR '')'' \<and> snd (strtoull0 seq) = length seq
               then 0x7FF8000000000000 OR word_of_nat (fst (strtoull0 seq) mod 2 ^ 51)
               else 0x7FF8000000000000)
      else 0x7FF8000000000000)"

definition strtod_magnitude :: "string \<Rightarrow> double" where
  "strtod_magnitude s =
     (if has_prefix_ci ''inf'' s then 0x7FF0000000000000
      else if has_prefix_ci ''nan'' s then nan_bits (drop 3 s)
      else
        (let (hip, hfp, hr) = number_body isxdigit (drop 2 s);
             (ip, fp, r) = number_body isdigit s
         in if has_prefix_ci ''0x'' s \<and> hip @ hfp \<noteq> []
            then scale_to_double 2 (digits_val 16 (hip @ hfp))
                   (exponent_part CHR ''p'' hr - 4 * int (length hfp))
            else if ip @ fp \<noteq> []
            then scale_to_double 10 (digits_val 10 (ip @ fp))
                   (exponent_part CHR ''e'' r - int (length fp))
            else 0))"

definition strtod_converts :: "string \<Rightarrow> bool" where
  "strtod_converts s =
     (has_prefix_ci ''inf'' s \<or> has_prefix_ci ''nan'' s
      \<or> (let (ip, fp, r) = number_body isdigit s in ip @ fp \<noteq> []))"

definition atof :: "string \<Rightarrow> double" where
  "atof nptr =
     (let s = dropWhile isspace nptr
      in if strtod_converts (skip_sign s)
         then (if is_minus s then 0x8000000000000000 else 0) OR strtod_magnitude (skip_sign s)
         else 0)"

subsection \<open>Conversions and comparisons of the language\<close>

text \<open>
  \<^verbatim>\<open>(long long)f\<close> truncates towards zero. Where the truncated value does not fit, or \<open>f\<close>
  is infinite or NaN, the language leaves the result open and the compiled conversion
  (x86-64 \<^verbatim>\<open>cvttsd2si\<close>) gives \<^verbatim>\<open>LLONG_MIN\<close>; the model gives that value. \<^verbatim>\<open>(double)i\<close>
  rounds to nearest, ties to even. \<open>double_eq\<close> and \<open>double_lt\<close> are \<^verbatim>\<open>==\<close> and \<^verbatim>\<open><\<close> on
  doubles.
\<close>

definition double_to_ll :: "double \<Rightarrow> ll" where
  "double_to_ll f =
     (if double_exponent f = 2047 then 0x8000000000000000
      else
        (let t = (if double_exp2 f \<ge> 0 then double_mantissa f * 2 ^ nat (double_exp2 f)
                  else double_mantissa f div 2 ^ nat (- double_exp2 f));
             v = (if double_sign f then - int t else int t)
         in if - (2 ^ 63) \<le> v \<and> v < 2 ^ 63 then word_of_int v else 0x8000000000000000))"

definition ll_to_double :: "ll \<Rightarrow> double" where
  "ll_to_double i =
     (if sint i < 0 then 0x8000000000000000 OR round_to_double (nat (- sint i)) 1
      else round_to_double (nat (sint i)) 1)"

definition double_eq :: "double \<Rightarrow> double \<Rightarrow> bool" where
  "double_eq f g =
     (\<not> double_is_nan f \<and> \<not> double_is_nan g \<and> (f = g \<or> (double_is_zero f \<and> double_is_zero g)))"

definition double_key :: "double \<Rightarrow> int" where
  "double_key f =
     (if double_sign f then - int (unat (take_bit 63 f)) else int (unat (take_bit 63 f)))"

definition double_lt :: "double \<Rightarrow> double \<Rightarrow> bool" where
  "double_lt f g = (\<not> double_is_nan f \<and> \<not> double_is_nan g \<and> double_key f < double_key g)"

subsection \<open>Numeric coercions\<close>

text \<open>
  \<^verbatim>\<open>atoll(view)\<close> and \<^verbatim>\<open>atof(view)\<close> read the bytes at the view's pointer up to the first
  NUL; the view's length is not used. The buffer a view points into (a string literal, the
  data of a \<^verbatim>\<open>std::string\<close>) is followed by a NUL, so the read ends at the first NUL among
  the bytes of \<open>mem view\<close> or, when there is none, where they end.
\<close>

definition c_string_at :: "memory \<Rightarrow> addr \<Rightarrow> string" where
  "c_string_at mem p = c_str (mem p)"

definition getInt :: "memory \<Rightarrow> Variant \<Rightarrow> ll option" where
  "getInt mem v =
     (case type v of
        Type_INT \<Rightarrow> rd_i (payload v)
      | Type_FLOAT \<Rightarrow> map_option double_to_ll (rd_f (payload v))
      | Type_STRING \<Rightarrow> map_option (\<lambda>s. atoll (c_str s)) (rd_s (payload v))
      | Type_STRING_VIEW \<Rightarrow>
          (case rd_view (payload v) of
             None \<Rightarrow> None
           | Some (view, len) \<Rightarrow> Some (atoll (c_string_at mem view)))
      | _ \<Rightarrow> Some 0)"

definition getFloat :: "memory \<Rightarrow> Variant \<Rightarrow> double option" where
  "getFloat mem v =
     (case type v of
        Type_INT \<Rightarrow> map_option ll_to_double (rd_i (payload v))
      | Type_FLOAT \<Rightarrow> rd_f (payload v)
      | Type_STRING \<Rightarrow> map_option (\<lambda>s. atof (c_str s)) (rd_s (payload v))
      | Type_STRING_VIEW \<Rightarrow>
          (case rd_view (payload v) of
             None \<Rightarrow> None
           | Some (view, len) \<Rightarrow> Some (atof (c_string_at mem view)))
      | _ \<Rightarrow> Some 0)"

subsection \<open>Equality, hashing, ordering\<close>

text \<open>
  \<^verbatim>\<open>std::vector\<close>'s \<^verbatim>\<open>==\<close> compares the sizes, then the elements in order with
  \<^verbatim>\<open>Variant::operator==\<close>, up to the first that differ. \<^verbatim>\<open>std::hash\<close> is a parameter: a
  record of the five specialisations the source uses. \<^verbatim>\<open>std::string\<close>'s \<^verbatim>\<open><\<close> is the
  lexicographic order on bytes.
\<close>

definition both :: "'a option \<Rightarrow> 'b option \<Rightarrow> ('a \<Rightarrow> 'b \<Rightarrow> 'c) \<Rightarrow> 'c option" where
  "both x y f =
     (case x of None \<Rightarrow> None | Some a \<Rightarrow> (case y of None \<Rightarrow> None | Some b \<Rightarrow> Some (f a b)))"

fun operator_eq :: "Variant \<Rightarrow> Variant \<Rightarrow> bool option"
  and equal_elems :: "Variant list \<Rightarrow> Variant list \<Rightarrow> bool option" where
  "operator_eq (Variant t u) (Variant t' u') =
     (if t \<noteq> t' then Some False
      else
        (case t of
           Type_STRING \<Rightarrow> both (rd_s u) (rd_s u') (\<lambda>s s'. s = s')
         | Type_INT \<Rightarrow> both (rd_i u) (rd_i u') (\<lambda>i i'. i = i')
         | Type_ARRAY \<Rightarrow>
             (case u of
                U_a a \<Rightarrow>
                  (case u' of
                     U_a a' \<Rightarrow> if length a \<noteq> length a' then Some False else equal_elems a a'
                   | _ \<Rightarrow> None)
              | _ \<Rightarrow> None)
         | Type_FLOAT \<Rightarrow> both (rd_f u) (rd_f u') double_eq
         | Type_NIL \<Rightarrow> Some True
         | Type_BOOL \<Rightarrow> both (rd_b u) (rd_b u') (\<lambda>b b'. b = b')
         | _ \<Rightarrow> both (rd_p u) (rd_p u') (\<lambda>p p'. p = p')))"
| "equal_elems [] ys = Some True"
| "equal_elems (x # xs) [] = None"
| "equal_elems (x # xs) (y # ys) =
     (case operator_eq x y of
        Some True \<Rightarrow> equal_elems xs ys
      | r \<Rightarrow> r)"

record std_hash =
  hash_string :: "string \<Rightarrow> 64 word"
  hash_ll :: "ll \<Rightarrow> 64 word"
  hash_double :: "double \<Rightarrow> 64 word"
  hash_bool :: "bool \<Rightarrow> 64 word"
  hash_ptr :: "addr \<Rightarrow> 64 word"

definition hash :: "std_hash \<Rightarrow> memory \<Rightarrow> Variant \<Rightarrow> 64 word option" where
  "hash H mem v =
     (case type v of
        Type_STRING \<Rightarrow> map_option (hash_string H) (rd_s (payload v))
      | Type_STRING_VIEW \<Rightarrow> map_option (hash_string H) (getString mem v)
      | Type_INT \<Rightarrow> map_option (hash_ll H) (rd_i (payload v))
      | Type_ARRAY \<Rightarrow> Some 0
      | Type_FLOAT \<Rightarrow> map_option (hash_double H) (rd_f (payload v))
      | Type_NIL \<Rightarrow> Some 0
      | Type_BOOL \<Rightarrow> map_option (hash_bool H) (rd_b (payload v))
      | _ \<Rightarrow> map_option (hash_ptr H) (rd_p (payload v)))"

definition operator_lt :: "memory \<Rightarrow> Variant \<Rightarrow> Variant \<Rightarrow> bool option" where
  "operator_lt mem a v =
     (case type a of
        Type_INT \<Rightarrow> both (rd_i (payload a)) (getInt mem v) (\<lambda>i j. sint i < sint j)
      | Type_FLOAT \<Rightarrow> both (rd_f (payload a)) (getFloat mem v) double_lt
      | Type_STRING \<Rightarrow>
          (if type v = Type_STRING
           then both (rd_s (payload a)) (rd_s (payload v)) (\<lambda>s t. s < t)
           else both (rd_s (payload a)) (getString mem v) (\<lambda>s t. s < t))
      | Type_STRING_VIEW \<Rightarrow>
          both (getString mem v)
            (case rd_view (payload a) of
               None \<Rightarrow> None
             | Some (view, len) \<Rightarrow> string_of_view mem view len)
            (\<lambda>t s. t < s)
      | _ \<Rightarrow> both (rd_p (payload a)) (rd_p (payload v)) (\<lambda>p q. p < q))"

text \<open>A memory for the examples: the two bytes \<open>''ab''\<close> at address 100.\<close>

definition mem_ab :: memory where
  "mem_ab = (\<lambda>p. if p = 100 then ''ab'' else [])"

subsection \<open>Copy and move construction\<close>

text \<open>
  The copy constructor switches on the source's \<^verbatim>\<open>type\<close> and copies that member; a vector
  is copied element by element with the same constructor. The move constructor leaves a
  moved-from String or Array empty.
\<close>

fun Variant_copy :: "Variant \<Rightarrow> Variant option"
  and vector_copy :: "Variant list \<Rightarrow> Variant list option" where
  "Variant_copy (Variant t u) =
     (case t of
        Type_STRING \<Rightarrow> map_option (\<lambda>s. Variant t (U_s s)) (rd_s u)
      | Type_ARRAY \<Rightarrow>
          (case u of
             U_a a \<Rightarrow> map_option (\<lambda>a'. Variant t (U_a a')) (vector_copy a)
           | _ \<Rightarrow> None)
      | Type_STRING_VIEW \<Rightarrow> map_option (\<lambda>(view, len). Variant t (U_view view len)) (rd_view u)
      | Type_BOOL \<Rightarrow> map_option (\<lambda>b. Variant t (U_b b)) (rd_b u)
      | Type_FLOAT \<Rightarrow> map_option (\<lambda>f. Variant t (U_f f)) (rd_f u)
      | Type_INT \<Rightarrow> map_option (\<lambda>i. Variant t (U_i i)) (rd_i u)
      | Type_POINTER \<Rightarrow> map_option (\<lambda>p. Variant t (U_p p)) (rd_p u)
      | Type_VARIABLE \<Rightarrow> map_option (\<lambda>p. Variant t (U_v p)) (rd_p u)
      | Type_NIL \<Rightarrow> Some (Variant t U_indeterminate))"
| "vector_copy [] = Some []"
| "vector_copy (x # xs) =
     (case Variant_copy x of
        None \<Rightarrow> None
      | Some y \<Rightarrow> map_option ((#) y) (vector_copy xs))"

definition Variant_move :: "Variant \<Rightarrow> (Variant \<times> Variant) option" where
  "Variant_move v =
     (case type v of
        Type_STRING \<Rightarrow>
          map_option (\<lambda>s. (Variant (type v) (U_s s), Variant (type v) (U_s []))) (rd_s (payload v))
      | Type_ARRAY \<Rightarrow>
          map_option (\<lambda>a. (Variant (type v) (U_a a), Variant (type v) (U_a []))) (rd_a (payload v))
      | _ \<Rightarrow> map_option (\<lambda>c. (c, v)) (Variant_copy v))"

text \<open>
  A Variant is consistent when its \<^verbatim>\<open>type\<close> selects a member that holds a value, and so
  are the elements of an Array. Every constructor builds a consistent Variant.
\<close>

fun wf_Variant :: "Variant \<Rightarrow> bool"
  and wf_Variants :: "Variant list \<Rightarrow> bool" where
  "wf_Variant (Variant t u) =
     (case t of
        Type_NIL \<Rightarrow> True
      | Type_BOOL \<Rightarrow> rd_b u \<noteq> None
      | Type_FLOAT \<Rightarrow> rd_f u \<noteq> None
      | Type_INT \<Rightarrow> rd_i u \<noteq> None
      | Type_STRING \<Rightarrow> rd_s u \<noteq> None
      | Type_STRING_VIEW \<Rightarrow> rd_view u \<noteq> None
      | Type_ARRAY \<Rightarrow> (case u of U_a a \<Rightarrow> wf_Variants a | _ \<Rightarrow> False)
      | Type_VARIABLE \<Rightarrow> rd_p u \<noteq> None
      | Type_POINTER \<Rightarrow> rd_p u \<noteq> None)"
| "wf_Variants [] = True"
| "wf_Variants (x # xs) = (wf_Variant x \<and> wf_Variants xs)"

subsection \<open>Assignment\<close>

text \<open>
  \<^verbatim>\<open>operator=\<close> switches on the source's \<^verbatim>\<open>type\<close>. The model returns the destination after
  the assignment together with the destructor and placement-new calls the operator's own
  text makes, in order. The destination keeps its \<^verbatim>\<open>type\<close>: no statement of either
  operator assigns it. The test \<^verbatim>\<open>v.type == Type::ARRAY\<close> inside \<^verbatim>\<open>case Type::STRING\<close> (and its
  mirror image) is kept as written. \<^verbatim>\<open>f = v.f\<close> in the \<^verbatim>\<open>default\<close> case copies the eight bytes
  of the source's scalar member (\<open>scalar_bytes\<close>). \<^verbatim>\<open>a = v.a\<close> on a destination that
  already holds a vector is \<^verbatim>\<open>std::vector\<close>'s copy assignment with the capacity equal to the
  size, as after copy construction: a longer source is copied into new storage, otherwise
  the elements are assigned one by one with \<^verbatim>\<open>Variant::operator=\<close> and the rest destroyed.
\<close>

datatype event = Destruct_string | Destruct_vector | Construct_string | Construct_vector

fun scalar_bytes :: "payload \<Rightarrow> payload" where
  "scalar_bytes (U_b b) = U_b b"
| "scalar_bytes (U_f w) = U_f w"
| "scalar_bytes (U_i w) = U_i w"
| "scalar_bytes (U_p w) = U_p w"
| "scalar_bytes (U_v w) = U_v w"
| "scalar_bytes (U_view p n) = U_p p"
| "scalar_bytes _ = U_indeterminate"

fun operator_assign :: "Variant \<Rightarrow> Variant \<Rightarrow> (Variant \<times> event list) option"
  and assign_elems :: "Variant list \<Rightarrow> Variant list \<Rightarrow> Variant list option" where
  "operator_assign (Variant t u) v =
     (case type v of
        Type_STRING \<Rightarrow>
          (case rd_s (payload v) of
             None \<Rightarrow> None
           | Some s \<Rightarrow>
               if t \<noteq> Type_STRING
               then (if type v = Type_ARRAY
                     then map_option (\<lambda>a. (Variant t (U_s s), [Destruct_vector, Construct_string]))
                            (rd_a u)
                     else Some (Variant t (U_s s), [Construct_string]))
               else map_option (\<lambda>old. (Variant t (U_s s), [])) (rd_s u))
      | Type_ARRAY \<Rightarrow>
          (case rd_a (payload v) of
             None \<Rightarrow> None
           | Some src \<Rightarrow>
               if t \<noteq> Type_ARRAY
               then (if type v = Type_STRING
                     then (case rd_s u of
                             None \<Rightarrow> None
                           | Some old \<Rightarrow>
                               map_option (\<lambda>a. (Variant t (U_a a), [Destruct_string, Construct_vector]))
                                 (vector_copy src))
                     else map_option (\<lambda>a. (Variant t (U_a a), [Construct_vector])) (vector_copy src))
               else (case u of
                       U_a dst \<Rightarrow>
                         if length dst < length src
                         then map_option (\<lambda>a. (Variant t (U_a a), [])) (vector_copy src)
                         else map_option (\<lambda>a. (Variant t (U_a a), [])) (assign_elems dst src)
                     | _ \<Rightarrow> None))
      | Type_STRING_VIEW \<Rightarrow>
          map_option (\<lambda>(view, len). (Variant t (U_view view len), [])) (rd_view (payload v))
      | _ \<Rightarrow> Some (Variant t (scalar_bytes (payload v)), []))"
| "assign_elems dst [] = Some []"
| "assign_elems [] (y # ys) = None"
| "assign_elems (x # xs) (y # ys) =
     (case operator_assign x y of
        None \<Rightarrow> None
      | Some (x', ev) \<Rightarrow> map_option ((#) x') (assign_elems xs ys))"

definition operator_assign_move ::
  "Variant \<Rightarrow> Variant \<Rightarrow> (Variant \<times> Variant \<times> event list) option" where
  "operator_assign_move this v =
     (case type v of
        Type_STRING \<Rightarrow>
          (case rd_s (payload v) of
             None \<Rightarrow> None
           | Some s \<Rightarrow>
               if type this \<noteq> Type_STRING
               then (if type v = Type_ARRAY
                     then map_option
                            (\<lambda>a. (Variant (type this) (U_s s), Variant (type v) (U_s []),
                                  [Destruct_vector, Construct_string]))
                            (rd_a (payload this))
                     else Some (Variant (type this) (U_s s), Variant (type v) (U_s []),
                                [Construct_string]))
               else map_option (\<lambda>old. (Variant (type this) (U_s s), Variant (type v) (U_s []), []))
                      (rd_s (payload this)))
      | Type_ARRAY \<Rightarrow>
          (case rd_a (payload v) of
             None \<Rightarrow> None
           | Some src \<Rightarrow>
               if type this \<noteq> Type_ARRAY
               then (if type v = Type_STRING
                     then map_option
                            (\<lambda>old. (Variant (type this) (U_a src), Variant (type v) (U_a []),
                                    [Destruct_string, Construct_vector]))
                            (rd_s (payload this))
                     else Some (Variant (type this) (U_a src), Variant (type v) (U_a []),
                                [Construct_vector]))
               else map_option (\<lambda>old. (Variant (type this) (U_a src), Variant (type v) (U_a []), []))
                      (rd_a (payload this)))
      | Type_STRING_VIEW \<Rightarrow>
          map_option (\<lambda>(view, len). (Variant (type this) (U_view view len), v, []))
            (rd_view (payload v))
      | _ \<Rightarrow> Some (Variant (type this) (scalar_bytes (payload v)), v, []))"

section \<open>Node: leaf or branch\<close>

text \<open>
  \<^verbatim>\<open>struct Node\<close> is a \<^verbatim>\<open>NodeType\<close> pointer (\<open>ntype\<close>, null for a leaf), a line, a column and
  a union of a Variant and a vector of owned children. \<^verbatim>\<open>unique_ptr\<close> children that nothing
  else refers to are values: a branch holds its children as a list. (The move of a node
  into its own ancestor, where the source lives inside the destination, is modelled over
  an explicit store further down.) Reading the union member the \<^verbatim>\<open>type\<close> pointer does not
  select is \<open>None\<close>. An \<^verbatim>\<open>assert\<close> that fails is the failure \<open>Assertion_failed\<close>.
\<close>

datatype node_union = N_variant Variant | N_children "Node list"
and Node = Node (ntype: addr) (line: "64 word") (column: "64 word") (un: node_union)

fun rd_variant :: "node_union \<Rightarrow> Variant option" where
  "rd_variant (N_variant v) = Some v"
| "rd_variant _ = None"

fun rd_children :: "node_union \<Rightarrow> Node list option" where
  "rd_children (N_children cs) = Some cs"
| "rd_children _ = None"

definition Node_default :: Node where
  "Node_default = Node 0 0 0 (N_variant Variant_default)"

definition Node_of_type :: "addr \<Rightarrow> Node" where
  "Node_of_type t = Node t 0 0 (N_children [])"

definition Node_of_Variant :: "Variant \<Rightarrow> Node option" where
  "Node_of_Variant v = map_option (\<lambda>c. Node 0 0 0 (N_variant c)) (Variant_copy v)"

fun Node_copy :: "Node \<Rightarrow> Node option"
  and children_copy :: "Node list \<Rightarrow> Node list option" where
  "Node_copy (Node t l c u) =
     (if t \<noteq> 0
      then (case u of
              N_children cs \<Rightarrow> map_option (\<lambda>cs'. Node t l c (N_children cs')) (children_copy cs)
            | _ \<Rightarrow> None)
      else (case u of
              N_variant v \<Rightarrow> map_option (\<lambda>v'. Node t l c (N_variant v')) (Variant_copy v)
            | _ \<Rightarrow> None))"
| "children_copy [] = Some []"
| "children_copy (x # xs) =
     (case Node_copy x of
        None \<Rightarrow> None
      | Some y \<Rightarrow> map_option ((#) y) (children_copy xs))"

definition Node_move :: "Node \<Rightarrow> (Node \<times> Node) option" where
  "Node_move n =
     (if ntype n \<noteq> 0
      then map_option
             (\<lambda>cs. (Node (ntype n) (line n) (column n) (N_children cs),
                    Node (ntype n) (line n) (column n) (N_children [])))
             (rd_children (un n))
      else (case rd_variant (un n) of
              None \<Rightarrow> None
            | Some v \<Rightarrow>
                map_option
                  (\<lambda>(v', old). (Node (ntype n) (line n) (column n) (N_variant v'),
                                Node (ntype n) (line n) (column n) (N_variant old)))
                  (Variant_move v)))"

datatype failure = Assertion_failed

definition Node_getString :: "memory \<Rightarrow> Node \<Rightarrow> failure + string option" where
  "Node_getString mem n =
     (if ntype n \<noteq> 0 then Inl Assertion_failed
      else Inr (case rd_variant (un n) of None \<Rightarrow> None | Some v \<Rightarrow> getString mem v))"

definition Node_assign :: "Node \<Rightarrow> Node \<Rightarrow> Node option" where
  "Node_assign this n =
     (if ntype this \<noteq> 0 \<and> rd_children (un this) = None then None
      else if ntype n \<noteq> 0
      then map_option (\<lambda>cs. Node (ntype n) (line this) (column this) (N_children cs))
             (case rd_children (un n) of None \<Rightarrow> None | Some cs \<Rightarrow> children_copy cs)
      else Some (Node (ntype n) (line this) (column this) (N_variant Variant_default)))"

definition move_twice :: "Variant \<Rightarrow> (Variant \<times> Variant) option" where
  "move_twice v =
     (case Variant_move v of
        None \<Rightarrow> None
      | Some (tmp, old) \<Rightarrow> map_option (\<lambda>(v', tmp'). (v', old)) (Variant_move tmp))"

definition Node_assign_move :: "Node \<Rightarrow> Node \<Rightarrow> (Node \<times> Node) option" where
  "Node_assign_move this n =
     (if ntype this \<noteq> 0
      then (if ntype n = 0
            then (case rd_variant (un n) of
                    None \<Rightarrow> None
                  | Some v \<Rightarrow>
                      (case move_twice v of
                         None \<Rightarrow> None
                       | Some (v', old) \<Rightarrow>
                           map_option
                             (\<lambda>cs. (Node (ntype n) (line this) (column this) (N_variant v'),
                                    Node (ntype n) (line n) (column n) (N_variant old)))
                             (rd_children (un this))))
            else (case rd_children (un this) of
                    None \<Rightarrow> None
                  | Some old_cs \<Rightarrow>
                      map_option
                        (\<lambda>cs. (Node (ntype n) (line this) (column this) (N_children cs),
                               Node (ntype n) (line n) (column n) (N_children [])))
                        (rd_children (un n))))
      else (if ntype n \<noteq> 0
            then map_option
                   (\<lambda>cs. (Node (ntype n) (line this) (column this) (N_children cs),
                          Node (ntype n) (line n) (column n) (N_children [])))
                   (rd_children (un n))
            else (case rd_variant (un n) of
                    None \<Rightarrow> None
                  | Some v \<Rightarrow>
                      map_option
                        (\<lambda>(v', old). (Node (ntype n) (line this) (column this) (N_variant v'),
                                      Node (ntype n) (line n) (column n) (N_variant old)))
                        (Variant_move v))))"

text \<open>
  A Node is consistent when a branch holds children, a leaf holds a consistent Variant,
  and the children are consistent.
\<close>

fun wf_Node :: "Node \<Rightarrow> bool"
  and wf_Nodes :: "Node list \<Rightarrow> bool" where
  "wf_Node (Node t l c u) =
     (if t \<noteq> 0
      then (case u of N_children cs \<Rightarrow> wf_Nodes cs | _ \<Rightarrow> False)
      else (case u of N_variant v \<Rightarrow> wf_Variant v | _ \<Rightarrow> False))"
| "wf_Nodes [] = True"
| "wf_Nodes (x # xs) = (wf_Node x \<and> wf_Nodes xs)"

section \<open>Nodes in a store\<close>

text \<open>
  Move assignment is written for the case where the source is owned by the destination
  (\<^verbatim>\<open>node = std::move(*node.children[0])\<close>). There the two nodes are not independent
  values, so this part of the model keeps every node in a store: an association list from
  addresses to cells, a cell being a node whose children are addresses (the
  \<^verbatim>\<open>unique_ptr\<close>s). \<open>destroy\<close> is what the destructors do to a list of owned pointers: each
  node is released together with everything it owns, depth first; a pointer to a cell
  that is no longer in the store is a use after free (\<open>None\<close>).

  \<^verbatim>\<open>std::vector\<close>'s move assignment is library code and the language standard does not fix
  the order of its two effects, so the order is a parameter: \<open>Steal_first\<close> takes the
  source's buffer and then releases the destination's old elements (libstdc++),
  \<open>Release_first\<close> releases the old elements and then takes the buffer (libc++, MSVC).
\<close>

datatype cell_union = C_variant Variant | C_children "addr list"

datatype cell = Cell (ctype: addr) (cline: "64 word") (ccolumn: "64 word") (cun: cell_union)

type_synonym store = "(addr \<times> cell) list"

definition release :: "addr \<Rightarrow> store \<Rightarrow> store" where
  "release a h = filter (\<lambda>kc. fst kc \<noteq> a) h"

definition put :: "addr \<Rightarrow> cell \<Rightarrow> store \<Rightarrow> store" where
  "put a c h = (a, c) # release a h"

definition set_ctype :: "addr \<Rightarrow> cell \<Rightarrow> cell" where
  "set_ctype t c = Cell t (cline c) (ccolumn c) (cun c)"

definition set_cun :: "cell_union \<Rightarrow> cell \<Rightarrow> cell" where
  "set_cun u c = Cell (ctype c) (cline c) (ccolumn c) u"

fun rd_cvariant :: "cell_union \<Rightarrow> Variant option" where
  "rd_cvariant (C_variant v) = Some v"
| "rd_cvariant _ = None"

fun rd_cchildren :: "cell_union \<Rightarrow> addr list option" where
  "rd_cchildren (C_children cs) = Some cs"
| "rd_cchildren _ = None"

text \<open>Releasing a cell that is in the store makes the store smaller: \<open>destroy\<close> terminates.\<close>

lemma release_shorter: "map_of h a = Some c \<Longrightarrow> length (release a h) < length h"
proof -
  assume "map_of h a = Some c"
  then have m: "(a, c) \<in> set h" by (rule map_of_SomeD)
  have "\<not> fst (a, c) \<noteq> a" by simp
  with m show ?thesis unfolding release_def by (rule length_filter_less)
qed

function destroy :: "store \<Rightarrow> addr list \<Rightarrow> store option" where
  "destroy h [] = Some h"
| "destroy h (a # as) =
     (case map_of h a of
        None \<Rightarrow> None
      | Some c \<Rightarrow>
          if ctype c \<noteq> 0
          then (case rd_cchildren (cun c) of
                  None \<Rightarrow> None
                | Some cs \<Rightarrow> destroy (release a h) (cs @ as))
          else (case rd_cvariant (cun c) of
                  None \<Rightarrow> None
                | Some v \<Rightarrow> destroy (release a h) as))"
  by pat_completeness auto
termination
  by (relation "measure (\<lambda>(h, as). length h)") (auto simp: release_shorter)

datatype vec_order = Steal_first | Release_first

definition vector_move_assign :: "vec_order \<Rightarrow> store \<Rightarrow> addr \<Rightarrow> addr \<Rightarrow> store option" where
  "vector_move_assign ord h d s =
     (case ord of
        Steal_first \<Rightarrow>
          (case map_of h d of None \<Rightarrow> None | Some this \<Rightarrow>
           case map_of h s of None \<Rightarrow> None | Some n \<Rightarrow>
           case rd_cchildren (cun this) of None \<Rightarrow> None | Some old \<Rightarrow>
           case rd_cchildren (cun n) of None \<Rightarrow> None | Some cs \<Rightarrow>
             destroy (put d (set_cun (C_children cs) this) (put s (set_cun (C_children []) n) h)) old)
      | Release_first \<Rightarrow>
          (case map_of h d of None \<Rightarrow> None | Some this \<Rightarrow>
           case rd_cchildren (cun this) of None \<Rightarrow> None | Some old \<Rightarrow>
           case destroy h old of None \<Rightarrow> None | Some h' \<Rightarrow>
           case map_of h' s of None \<Rightarrow> None | Some n \<Rightarrow>
           case rd_cchildren (cun n) of None \<Rightarrow> None | Some cs \<Rightarrow>
           case map_of h' d of None \<Rightarrow> None | Some this' \<Rightarrow>
             Some (put d (set_cun (C_children cs) this') (put s (set_cun (C_children []) n) h'))))"

text \<open>
  \<^verbatim>\<open>Node::operator=(Node&&)\<close> on the node at \<open>d\<close> with the node at \<open>s\<close> as its argument, statement
  by statement.
\<close>

definition Node_assign_move_in :: "vec_order \<Rightarrow> store \<Rightarrow> addr \<Rightarrow> addr \<Rightarrow> store option" where
  "Node_assign_move_in ord h d s =
     (case map_of h d of None \<Rightarrow> None | Some this \<Rightarrow>
      case map_of h s of None \<Rightarrow> None | Some n \<Rightarrow>
        if ctype this \<noteq> 0
        then (if ctype n = 0
              then (case rd_cvariant (cun n) of None \<Rightarrow> None | Some v \<Rightarrow>
                    case move_twice v of None \<Rightarrow> None | Some (v', old) \<Rightarrow>
                    case rd_cchildren (cun this) of None \<Rightarrow> None | Some cs \<Rightarrow>
                    case destroy (put d (set_ctype (ctype n) this)
                                   (put s (set_cun (C_variant old) n) h)) cs of
                      None \<Rightarrow> None
                    | Some h' \<Rightarrow>
                        (case map_of h' d of
                           None \<Rightarrow> None
                         | Some this' \<Rightarrow> Some (put d (set_cun (C_variant v') this') h')))
              else vector_move_assign ord (put d (set_ctype (ctype n) this) h) d s)
        else (if ctype n \<noteq> 0
              then (case rd_cchildren (cun n) of None \<Rightarrow> None | Some cs \<Rightarrow>
                      Some (put d (Cell (ctype n) (cline this) (ccolumn this) (C_children cs))
                             (put s (set_cun (C_children []) n) h)))
              else (case rd_cvariant (cun n) of None \<Rightarrow> None | Some v \<Rightarrow>
                    case Variant_move v of None \<Rightarrow> None | Some (v', old) \<Rightarrow>
                      Some (put d (Cell (ctype n) (cline this) (ccolumn this) (C_variant v'))
                             (put s (set_cun (C_variant old) n) h)))))"

definition store0 :: store where
  "store0 = [(1, Cell 7 10 11 (C_children [2])),
             (2, Cell 8 20 21 (C_children [3])),
             (3, Cell 0 30 31 (C_variant (Variant_ll 5)))]"

section \<open>Properties of Variant\<close>

subsection \<open>Truthiness table\<close>

text \<open>
  C2. For every falsiness bitmask \<open>fl\<close>, \<open>isTruthy\<close> gives the table of section 4.1 of the
  specification: a Bool is its boolean; an Int or a Float is falsy exactly when bit
  \<open>FALSY_0\<close> is set and the value is zero; a Pointer is falsy exactly when bit
  \<open>FALSY_NIL\<close> is set and the pointer is null; Nil is falsy exactly when \<open>FALSY_NIL\<close> is
  set; a String is falsy exactly when \<open>FALSY_EMPTY_STRING\<close> is set and the string is
  empty; a StringView, an Array and a VariableHandle are truthy whatever they hold.
\<close>

theorem isTruthy_table:
  "isTruthy (Variant Type_BOOL (U_b b)) fl = Some b
   \<and> isTruthy (Variant Type_INT (U_i i)) fl = Some (\<not> (fl AND FALSY_0 \<noteq> 0 \<and> i = 0))
   \<and> isTruthy (Variant Type_FLOAT (U_f f)) fl = Some (\<not> (fl AND FALSY_0 \<noteq> 0 \<and> double_is_zero f))
   \<and> isTruthy (Variant Type_POINTER (U_p p)) fl = Some (\<not> (fl AND FALSY_NIL \<noteq> 0 \<and> p = 0))
   \<and> isTruthy (Variant Type_NIL u) fl = Some (\<not> (fl AND FALSY_NIL \<noteq> 0))
   \<and> isTruthy (Variant Type_STRING (U_s s)) fl = Some (\<not> (fl AND FALSY_EMPTY_STRING \<noteq> 0 \<and> s = []))
   \<and> isTruthy (Variant Type_STRING_VIEW u) fl = Some True
   \<and> isTruthy (Variant Type_ARRAY u) fl = Some True
   \<and> isTruthy (Variant Type_VARIABLE u) fl = Some True"
  by (auto simp: isTruthy_def flag_and_def)

subsection \<open>Float to string\<close>

lemmas printf_eval = printf_f_def double_sign_def double_is_nan_def double_is_inf_def
  double_exponent_def double_fraction_def scaled6_def double_exp2_def double_mantissa_def
  round_half_even_def pad6_def dec.simps digit_char_def Let_def

lemma dec_length: "n < 10 ^ k \<Longrightarrow> 0 < k \<Longrightarrow> length (dec n) \<le> k"
proof (induction n arbitrary: k rule: dec.induct)
  case (1 n)
  show ?case
  proof (cases "n < 10")
    case True
    then have "dec n = [digit_char n]" by (subst dec.simps) simp
    then show ?thesis using 1(3) by simp
  next
    case False
    then obtain k' where k: "k = Suc k'" using 1(3) by (cases k) auto
    have "k' \<noteq> 0" using False 1(2) k by (cases k') auto
    moreover have "n div 10 < 10 ^ k'" using 1(2) k by (simp add: less_mult_imp_div_less mult.commute)
    ultimately have "length (dec (n div 10)) \<le> k'" using 1(1) [OF False] by simp
    moreover have "dec n = dec (n div 10) @ [digit_char (n mod 10)]"
      using False by (subst dec.simps) simp
    ultimately show ?thesis using k by simp
  qed
qed

lemma dec_nonempty: "dec n \<noteq> []"
  by (subst dec.simps) simp

lemma double_exponent_bound: "double_exponent f < 2048"
proof -
  have "take_bit 11 (unat (drop_bit 52 f)) < 2 ^ 11"
    by (rule take_bit_nat_less_exp)
  then show ?thesis by (simp add: double_exponent_def unsigned_take_bit_eq)
qed

lemma double_fraction_bound: "double_fraction f < 2 ^ 52"
  unfolding double_fraction_def unsigned_take_bit_eq by (rule take_bit_nat_less_exp)

lemma double_mantissa_bound: "double_mantissa f < 2 ^ 53"
  using double_fraction_bound [of f] by (simp add: double_mantissa_def)

lemma round_half_even_le: "round_half_even n d \<le> n div d + 1"
  by (simp add: round_half_even_def Let_def)

lemma pow_2_1024: "(2::nat) ^ 1024 < 10 ^ 309"
  by simp

lemma int_part_bound:
  assumes "double_exponent f \<noteq> 2047"
  shows "scaled6 f div 10 ^ 6 < 10 ^ 309"
proof (cases "double_exp2 f \<ge> 0")
  case True
  have e: "nat (double_exp2 f) \<le> 971"
  proof (cases "double_exponent f = 0")
    case True
    then show ?thesis by (simp add: double_exp2_def)
  next
    case False
    have "double_exponent f \<le> 2046"
      using assms double_exponent_bound [of f] by simp
    then have "int (double_exponent f) - 1075 \<le> 971" by simp
    then show ?thesis using False by (simp add: double_exp2_def)
  qed
  define P :: nat where "P = 2 ^ 971"
  have P: "0 < P" by (simp add: P_def)
  have "(2::nat) ^ nat (double_exp2 f) \<le> P"
    unfolding P_def using e by (intro power_increasing) simp_all
  then have "double_mantissa f * 2 ^ nat (double_exp2 f) \<le> double_mantissa f * P"
    by (rule mult_le_mono2)
  also have "\<dots> < 2 ^ 53 * P"
    using double_mantissa_bound [of f] P by (rule mult_less_mono1)
  also have "(2::nat) ^ 53 * P = 2 ^ 1024" by (simp add: P_def flip: power_add)
  finally have "double_mantissa f * 2 ^ nat (double_exp2 f) < 10 ^ 309"
    using pow_2_1024 by (rule less_trans)
  then show ?thesis using True by (simp add: scaled6_def)
next
  case False
  have "scaled6 f \<le> double_mantissa f * 10 ^ 6 div 2 ^ nat (- double_exp2 f) + 1"
    using False round_half_even_le by (simp add: scaled6_def)
  also have "\<dots> \<le> double_mantissa f * 10 ^ 6 + 1"
    by (simp add: div_le_dividend)
  finally have "scaled6 f div 10 ^ 6 \<le> (double_mantissa f * 10 ^ 6 + 1) div 10 ^ 6"
    by (rule div_le_mono)
  also have "\<dots> = double_mantissa f" by simp
  also have "\<dots> < 2 ^ 53" by (rule double_mantissa_bound)
  also have "(2::nat) ^ 53 < 10 ^ 309" by simp
  finally show ?thesis .
qed

lemma pad6_length: "length s \<le> 6 \<Longrightarrow> length (pad6 s) = 6"
  by (simp add: pad6_def)

lemma printf_f_length: "length (printf_f f) \<le> 511"
proof (cases "double_exponent f = 2047")
  case True
  then show ?thesis by (simp add: printf_f_def double_is_nan_def double_is_inf_def)
next
  case False
  have a: "length (dec (scaled6 f div 10 ^ 6)) \<le> 309"
    using int_part_bound [OF False] by (rule dec_length) simp
  have "length (dec (scaled6 f mod 10 ^ 6)) \<le> 6"
    by (rule dec_length) simp_all
  then have b: "length (pad6 (dec (scaled6 f mod 10 ^ 6))) = 6"
    by (rule pad6_length)
  show ?thesis
    using a b False by (simp add: printf_f_def double_is_nan_def double_is_inf_def)
qed

lemma find_dot_takeWhile:
  "len = length s \<Longrightarrow> i \<le> len \<Longrightarrow>
   find_dot s len i = i + length (takeWhile (\<lambda>c. c \<noteq> CHR ''.'') (drop i s))"
proof (induction s len i rule: find_dot.induct)
  case (1 buffer len i)
  show ?case
  proof (cases "i < len \<and> buffer ! i \<noteq> CHR ''.''")
    case True
    then have d: "drop i buffer = buffer ! i # drop (Suc i) buffer"
      using 1(2) by (simp add: Cons_nth_drop_Suc)
    have "find_dot buffer len i = find_dot buffer len (i + 1)"
      using True by (subst find_dot.simps) simp
    also have "\<dots> = (i + 1) + length (takeWhile (\<lambda>c. c \<noteq> CHR ''.'') (drop (i + 1) buffer))"
      using 1 True by simp
    finally show ?thesis using True d by simp
  next
    case False
    then have r: "find_dot buffer len i = i"
      by (subst find_dot.simps) auto
    show ?thesis
    proof (cases "i < len")
      case True
      then have "drop i buffer = buffer ! i # drop (Suc i) buffer"
        using 1(2) by (simp add: Cons_nth_drop_Suc)
      then show ?thesis using False True r by simp
    next
      case False
      then show ?thesis using 1(2,3) r by simp
    qed
  qed
qed

lemma trim_zeros_dropWhile:
  "len = length s \<Longrightarrow> i < j \<Longrightarrow> j \<le> len \<Longrightarrow> s ! i \<noteq> CHR ''0'' \<Longrightarrow>
   trim_zeros s len i j =
     i + 1 + length (dropWhile (\<lambda>c. c = CHR ''0'') (rev (take (j - (i + 1)) (drop (i + 1) s))))"
proof (induction s len i j rule: trim_zeros.induct)
  case (1 buffer len i j)
  show ?case
  proof (cases "j = i + 1")
    case True
    then have "trim_zeros buffer len i j = j"
      using 1(5) by (subst trim_zeros.simps) simp
    then show ?thesis using True by simp
  next
    case False
    then have j: "i + 1 < j" using 1(3) by simp
    define k where "k = j - (i + 1) - 1"
    have kj: "j - (i + 1) = Suc k" using j by (simp add: k_def)
    have lk: "k < length (drop (i + 1) buffer)" using j 1(2,4) by (simp add: k_def)
    have tk: "take (Suc k) (drop (i + 1) buffer) = take k (drop (i + 1) buffer) @ [buffer ! (j - 1)]"
    proof -
      have "Suc (i + k) = j - 1" using j by (simp add: k_def)
      then have "drop (i + 1) buffer ! k = buffer ! (j - 1)"
        using lk by simp
      then show ?thesis using lk by (simp add: take_Suc_conv_app_nth)
    qed
    show ?thesis
    proof (cases "buffer ! (j - 1) = CHR ''0''")
      case True
      have "trim_zeros buffer len i j = trim_zeros buffer len i (j - 1)"
        using True 1(2,3,4) by (subst trim_zeros.simps) simp
      also have "\<dots> = i + 1 + length (dropWhile (\<lambda>c. c = CHR ''0'')
            (rev (take (j - 1 - (i + 1)) (drop (i + 1) buffer))))"
        using 1 True j by simp
      finally show ?thesis using True kj tk by (simp add: k_def)
    next
      case False
      have "trim_zeros buffer len i j = j"
        using False by (subst trim_zeros.simps) auto
      then show ?thesis using False kj tk lk j by (simp add: k_def)
    qed
  qed
qed

lemma rev_dropWhile_rev_take:
  "rev (dropWhile P (rev xs)) = take (length (dropWhile P (rev xs))) xs"
proof -
  have "rev xs = takeWhile P (rev xs) @ dropWhile P (rev xs)" by simp
  then have "xs = rev (dropWhile P (rev xs)) @ rev (takeWhile P (rev xs))"
    by (metis rev_append rev_rev_ident)
  then show ?thesis
    by (metis append_eq_conv_conj length_rev)
qed

lemma trim_buffer_eq:
  assumes "length s \<le> 511"
  shows "trim_buffer s = trim_fraction s"
proof -
  define i where "i = length (takeWhile (\<lambda>c. c \<noteq> CHR ''.'') s)"
  define j where "j = trim_zeros s (length s) i (length s)"
  have t: "take 511 s = s" using assms by simp
  have fd: "find_dot s (length s) 0 = i"
    using find_dot_takeWhile [of "length s" s 0] by (simp add: i_def)
  have tb: "trim_buffer s = take (if j = i + 1 then i else j) s"
    unfolding trim_buffer_def Let_def t fd j_def by (rule refl)
  have ip: "takeWhile (\<lambda>c. c \<noteq> CHR ''.'') s = take i s"
    unfolding i_def by (rule takeWhile_eq_take)
  have rest: "dropWhile (\<lambda>c. c \<noteq> CHR ''.'') s = drop i s"
    unfolding i_def by (rule dropWhile_eq_drop)
  have ile: "i \<le> length s" by (simp add: i_def length_takeWhile_le)
  show ?thesis
  proof (cases "i < length s")
    case False
    then have il: "i = length s" using ile by simp
    have "j = length s"
      unfolding j_def by (subst trim_zeros.simps) (simp add: il)
    then show ?thesis
      using il by (simp add: tb trim_fraction_def Let_def rest)
  next
    case True
    have dot: "s ! i = CHR ''.''"
      using True nth_length_takeWhile [of "\<lambda>c. c \<noteq> CHR ''.''" s] by (simp add: i_def)
    have d: "drop i s = s ! i # drop (Suc i) s"
      using True by (simp add: Cons_nth_drop_Suc)
    define fr where "fr = rev (dropWhile (\<lambda>c. c = CHR ''0'') (rev (drop (Suc i) s)))"
    have jv: "j = i + 1 + length fr"
      unfolding j_def fr_def
      using trim_zeros_dropWhile [of "length s" s i "length s"] True dot by simp
    have frt: "fr = take (length fr) (drop (Suc i) s)"
      unfolding fr_def length_rev by (rule rev_dropWhile_rev_take)
    have tf: "trim_fraction s = (if fr = [] then take i s else take i s @ ''.'' @ fr)"
      by (simp add: trim_fraction_def Let_def rest ip d fr_def)
    show ?thesis
    proof (cases "fr = []")
      case True
      then show ?thesis using jv by (simp add: tb tf)
    next
      case False
      have "take j s = take i s @ take (j - i) (drop i s)"
        using jv by (metis le_add1 add.assoc take_add le_add_diff_inverse)
      also have "take (j - i) (drop i s) = s ! i # take (length fr) (drop (Suc i) s)"
        using jv by (simp add: d)
      finally have "take j s = take i s @ ''.'' @ fr"
        using frt dot by simp
      then show ?thesis using False jv by (simp add: tb tf)
    qed
  qed
qed

lemma float_to_string_eq: "float_to_string f = trim_fraction (printf_f f)"
  unfolding float_to_string_def by (rule trim_buffer_eq) (rule printf_f_length)

lemma printf_f_3: "printf_f 0x4008000000000000 = ''3.000000''"
  by (simp add: printf_eval)

lemma printf_f_3_14: "printf_f 0x40091EB851EB851F = ''3.140000''"
  by (simp add: printf_eval)

lemma printf_f_3_1: "printf_f 0x4008CCCCCCCCCCCD = ''3.100000''"
  by (simp add: printf_eval)

lemma float_to_string_3: "float_to_string 0x4008000000000000 = ''3''"
  by (simp add: float_to_string_eq printf_f_3 trim_fraction_def)

lemma float_to_string_3_14: "float_to_string 0x40091EB851EB851F = ''3.14''"
  by (simp add: float_to_string_eq printf_f_3_14 trim_fraction_def)

lemma float_to_string_3_1: "float_to_string 0x4008CCCCCCCCCCCD = ''3.1''"
  by (simp add: float_to_string_eq printf_f_3_1 trim_fraction_def)

text \<open>
  C8. For every Float Variant, \<open>getString\<close> is the \<^verbatim>\<open>%f\<close> rendering of the value with the
  trailing zeros of its fraction trimmed, and the decimal point too when nothing follows
  it. The doubles \<open>3.0\<close>, \<open>3.14\<close> and \<open>3.1\<close> (bit patterns \<open>0x4008000000000000\<close>,
  \<open>0x40091EB851EB851F\<close>, \<open>0x4008CCCCCCCCCCCD\<close>) give \<open>''3''\<close>, \<open>''3.14''\<close> and \<open>''3.1''\<close>.
\<close>

theorem getString_FLOAT_trims:
  "getString mem (Variant Type_FLOAT (U_f f)) = Some (trim_fraction (printf_f f))
   \<and> getString mem (Variant_double 0x4008000000000000) = Some ''3''
   \<and> getString mem (Variant_double 0x40091EB851EB851F) = Some ''3.14''
   \<and> getString mem (Variant_double 0x4008CCCCCCCCCCCD) = Some ''3.1''"
  by (simp add: getString_def Variant_double_def float_to_string_eq [symmetric]
      float_to_string_3 float_to_string_3_14 float_to_string_3_1)

subsection \<open>Numeric coercions\<close>












subsection \<open>Equality and hashing\<close>

lemma operator_eq_hash_not_view:
  assumes H: "\<And>f g. double_eq f g \<Longrightarrow> hash_double H f = hash_double H g"
    and t: "type a \<noteq> Type_STRING_VIEW"
    and e: "operator_eq a b = Some True"
  shows "hash H mem a = hash H mem b"
proof (cases a)
  case a: (Variant ta ua)
  show ?thesis
  proof (cases b)
    case b: (Variant tb ub)
    have tt: "tb = ta" using e a b by (auto split: if_splits)
    show ?thesis
      using e t H unfolding a b tt
      by (cases ta) (auto simp: hash_def both_def split: option.splits)
  qed
qed

text \<open>
  C5. Two StringViews that start at the same address compare equal whatever their
  lengths, because \<^verbatim>\<open>operator==\<close> has no \<^verbatim>\<open>STRING_VIEW\<close> case and its \<^verbatim>\<open>default\<close> compares
  the pointers only; \<^verbatim>\<open>hash\<close> hashes the viewed text. Over the bytes \<open>''ab''\<close> at address
  100, the views of length 1 and 2 are equal and hash as \<open>''a''\<close> and \<open>''ab''\<close>. Every Array
  hashes to 0.
\<close>

theorem operator_eq_views_hash:
  "operator_eq (Variant_view 100 1) (Variant_view 100 2) = Some True
   \<and> hash H mem_ab (Variant_view 100 1) = Some (hash_string H ''a'')
   \<and> hash H mem_ab (Variant_view 100 2) = Some (hash_string H ''ab'')
   \<and> hash H mem (Variant Type_ARRAY u) = Some 0"
  by (simp add: hash_def Variant_view_def getString_def string_of_view_def mem_ab_def both_def)

subsection \<open>Ordering\<close>

text \<open>
  C6. For a String on the left, \<^verbatim>\<open>a < b\<close> is \<open>a\<close>'s text below \<open>b\<close>'s string form. For a
  StringView on the left the operands are the other way round: the result is \<open>b\<close>'s
  string form below \<open>a\<close>'s text. The view \<open>''a''\<close> against the String \<open>''b''\<close> gives false,
  although \<open>''a'' < ''b''\<close>.
\<close>

theorem operator_lt_view_reversed:
  "operator_lt mem (Variant_string s) (Variant_string t) = Some (s < t)
   \<and> operator_lt mem_ab (Variant_string ''a'') (Variant_view 100 2) = Some (''a'' < ''ab'')
   \<and> operator_lt mem_ab (Variant_view 100 1) (Variant_string t) = Some (t < ''a'')
   \<and> operator_lt mem_ab (Variant_view 100 1) (Variant_string ''b'') = Some False
   \<and> ''a'' < ''b''"
  by (simp add: operator_lt_def Variant_view_def Variant_string_def getString_def
      string_of_view_def mem_ab_def both_def)

subsection \<open>Assignment\<close>

lemma Variant_copy_returns: "wf_Variant v \<Longrightarrow> \<exists>c. Variant_copy v = Some c"
  and vector_copy_returns: "wf_Variants vs \<Longrightarrow> \<exists>cs. vector_copy vs = Some cs"
proof (induction v and vs rule: Variant_copy_vector_copy.induct)
  case (1 t u)
  then show ?case by (cases t; cases u) auto
next
  case 2
  then show ?case by simp
next
  case (3 x xs)
  then show ?case by auto
qed

lemma Variant_move_returns: "wf_Variant v \<Longrightarrow> \<exists>c old. Variant_move v = Some (c, old)"
proof (cases v)
  case (Variant t u)
  assume w: "wf_Variant v"
  then obtain c where "Variant_copy v = Some c" using Variant_copy_returns by blast
  then show ?thesis
    using w unfolding Variant
    by (cases t; cases u) (auto simp: Variant_move_def)
qed

lemma Variant_move_wf: "wf_Variant v \<Longrightarrow> Variant_move v = Some (c, old) \<Longrightarrow> wf_Variant c"
proof (cases v)
  case (Variant t u)
  assume "wf_Variant v" "Variant_move v = Some (c, old)"
  then show ?thesis
    unfolding Variant
    by (cases t; cases u) (auto simp: Variant_move_def)
qed

lemma move_twice_returns: "wf_Variant v \<Longrightarrow> \<exists>c old. move_twice v = Some (c, old)"
proof -
  assume w: "wf_Variant v"
  then obtain c old where m: "Variant_move v = Some (c, old)"
    using Variant_move_returns by blast
  then have "wf_Variant c" using w Variant_move_wf by blast
  then obtain c' old' where "Variant_move c = Some (c', old')"
    using Variant_move_returns by blast
  then show ?thesis using m by (simp add: move_twice_def)
qed

lemma operator_assign_keeps_type:
  "operator_assign this v = Some (r, ev) \<Longrightarrow> type r = type this"
  by (cases this; cases "type v") (auto split: option.splits if_splits payload.splits)

lemma operator_assign_move_keeps_type:
  "operator_assign_move this v = Some (r, v', ev) \<Longrightarrow> type r = type this"
  by (cases "type v") (auto simp: operator_assign_move_def split: option.splits if_splits)

text \<open>
  C1. Neither assignment operator writes \<^verbatim>\<open>type\<close>, and the test that guards the destructor
  call reads \<^verbatim>\<open>v.type\<close> where the destination's own \<^verbatim>\<open>type\<close> is meant (inside
  \<^verbatim>\<open>case Type::STRING\<close> the test \<^verbatim>\<open>v.type == Type::ARRAY\<close> is never true). Assigning the
  String \<open>''x''\<close> to the Int 1 leaves a Variant that is still tagged Int over a string
  payload, and it does not compare equal to the source; assigning it to an Array runs no
  vector destructor before the string is constructed in place. Move assignment does the
  same.
\<close>

theorem operator_assign_discriminant_unchanged:
  "operator_assign (Variant_ll 1) (Variant_string ''x'')
     = Some (Variant Type_INT (U_s ''x''), [Construct_string])
   \<and> operator_eq (Variant Type_INT (U_s ''x'')) (Variant_string ''x'') = Some False
   \<and> operator_assign (Variant_vector [Variant_ll 7]) (Variant_string ''x'')
     = Some (Variant Type_ARRAY (U_s ''x''), [Construct_string])
   \<and> operator_assign_move (Variant_ll 1) (Variant_string ''x'')
     = Some (Variant Type_INT (U_s ''x''), Variant Type_STRING (U_s []), [Construct_string])"
  by (simp add: Variant_ll_def Variant_string_def Variant_vector_def operator_assign_move_def)

section \<open>Properties of Node\<close>

subsection \<open>Copying\<close>

lemma Node_copy_returns: "wf_Node n \<Longrightarrow> \<exists>r. Node_copy n = Some r"
  and children_copy_returns: "wf_Nodes ns \<Longrightarrow> \<exists>rs. children_copy ns = Some rs"
proof (induction n and ns rule: Node_copy_children_copy.induct)
  case (1 t l c u)
  then show ?case
    using Variant_copy_returns by (cases u) (auto split: if_splits)
next
  case 2
  then show ?case by simp
next
  case (3 x xs)
  then show ?case by auto
qed

lemma Node_assign_returns:
  assumes "wf_Node this" "wf_Node n"
  shows "\<exists>r. Node_assign this n = Some r"
proof (cases n)
  case n: (Node t l c u)
  show ?thesis
  proof (cases this)
    case d: (Node t' l' c' u')
    show ?thesis
      using assms children_copy_returns unfolding n d
      by (cases u; cases u') (auto simp: Node_assign_def split: if_splits)
  qed
qed

lemma Node_assign_move_returns:
  assumes "wf_Node this" "wf_Node n"
  shows "\<exists>r n'. Node_assign_move this n = Some (r, n')"
proof (cases n)
  case n: (Node t l c u)
  show ?thesis
  proof (cases this)
    case d: (Node t' l' c' u')
    show ?thesis
      using assms move_twice_returns Variant_move_returns unfolding n d
      by (cases u; cases u') (fastforce simp: Node_assign_move_def split: if_splits)+
  qed
qed

lemma Node_copy_position:
  "Node_copy n = Some r \<Longrightarrow> ntype r = ntype n \<and> line r = line n \<and> column r = column n"
  by (cases n) (auto split: if_splits node_union.splits)

text \<open>
  C3. The copy constructor copies a leaf's Variant and clones the children of a branch.
  Copy assignment clones the children of a branch too, but for a leaf source it
  constructs an empty Variant (\<^verbatim>\<open>new(&variant) Variant()\<close>) and never reads the source's:
  assigning the leaf Int 5 leaves the destination a Nil leaf.
\<close>

theorem Node_assign_leaf_is_Nil:
  "Node_assign Node_default (Node 0 3 4 (N_variant (Variant_ll 5)))
     = Some (Node 0 0 0 (N_variant Variant_default))
   \<and> Node_copy (Node 0 3 4 (N_variant (Variant_ll 5)))
     = Some (Node 0 3 4 (N_variant (Variant_ll 5)))
   \<and> Node_copy (Node 7 1 2 (N_children
        [Node 0 3 4 (N_variant (Variant_ll 5)), Node 8 0 0 (N_children [])]))
     = Some (Node 7 1 2 (N_children
        [Node 0 3 4 (N_variant (Variant_ll 5)), Node 8 0 0 (N_children [])]))
   \<and> Node_assign Node_default (Node 7 1 2 (N_children [Node 0 3 4 (N_variant (Variant_ll 5))]))
     = Some (Node 7 0 0 (N_children [Node 0 3 4 (N_variant (Variant_ll 5))]))"
  by (simp add: Node_assign_def Node_default_def Variant_ll_def)

subsection \<open>The leaf-only string accessor\<close>

text \<open>
  C9. On a leaf (null \<^verbatim>\<open>type\<close>) \<open>Node_getString\<close> is the string form of the leaf's Variant;
  on a branch the assertion fails, which is a failure and not a string value; and on a
  leaf the assertion never fails.
\<close>

theorem Node_getString_leaf_only:
  "Node_getString mem (Node 0 l c (N_variant v)) = Inr (getString mem v)
   \<and> (t \<noteq> 0 \<longrightarrow> Node_getString mem (Node t l c u) = Inl Assertion_failed)
   \<and> (ntype n = 0 \<longrightarrow> Node_getString mem n \<noteq> Inl Assertion_failed)"
  by (simp add: Node_getString_def)

theorem Node_getString_leaf_only_witness:
  "Node_getString (\<lambda>p. []) (Node 7 0 0 (N_children [])) = Inl Assertion_failed
   \<and> Node_getString (\<lambda>p. []) (Node 0 0 0 (N_variant (Variant_bool True))) = Inr (Some ''true'')
   \<and> Node_getString (\<lambda>p. []) (Node 0 0 0 (N_variant (Variant_bool True))) \<noteq> Inl Assertion_failed"
  using Node_getString_leaf_only [where mem = "\<lambda>p. []" and t = 7 and l = 0 and c = 0
      and u = "N_children []" and v = "Variant_bool True"
      and n = "Node 0 0 0 (N_variant (Variant_bool True))"]
  by (simp add: getString_def Variant_bool_def)

subsection \<open>Source position\<close>

text \<open>
  C10. On consistent nodes copy assignment and move assignment return, and they leave the
  destination's \<open>line\<close> and \<open>column\<close> as they were (as does every run of them that
  returns at all); the copy and the move constructor take them from the source.
\<close>

theorem Node_assign_keeps_position:
  "(wf_Node this \<and> wf_Node n \<longrightarrow>
      (\<exists>r. Node_assign this n = Some r \<and> line r = line this \<and> column r = column this)
      \<and> (\<exists>r n'. Node_assign_move this n = Some (r, n')
            \<and> line r = line this \<and> column r = column this))
   \<and> (Node_assign this n = Some r \<longrightarrow> line r = line this \<and> column r = column this)
   \<and> (Node_assign_move this n = Some (r', n') \<longrightarrow> line r' = line this \<and> column r' = column this)
   \<and> (Node_copy n = Some c \<longrightarrow> line c = line n \<and> column c = column n)
   \<and> (Node_move n = Some (m, n'') \<longrightarrow> line m = line n \<and> column m = column n)"
proof -
  have a: "Node_assign this n = Some r \<longrightarrow> line r = line this \<and> column r = column this" for r
    by (auto simp: Node_assign_def split: if_splits)
  have b: "Node_assign_move this n = Some (r', n')
      \<longrightarrow> line r' = line this \<and> column r' = column this" for r' n'
    by (auto simp: Node_assign_move_def split: if_splits option.splits)
  have "Node_copy n = Some c \<longrightarrow> line c = line n \<and> column c = column n"
    using Node_copy_position by blast
  moreover have "Node_move n = Some (m, n'') \<longrightarrow> line m = line n \<and> column m = column n"
    by (auto simp: Node_move_def split: if_splits option.splits)
  moreover have "wf_Node this \<and> wf_Node n \<longrightarrow>
      (\<exists>r. Node_assign this n = Some r \<and> line r = line this \<and> column r = column this)
      \<and> (\<exists>r n'. Node_assign_move this n = Some (r, n')
            \<and> line r = line this \<and> column r = column this)"
    using Node_assign_returns [of this n] Node_assign_move_returns [of this n] a b by blast
  ultimately show ?thesis using a b by blast
qed

theorem Node_assign_keeps_position_witness:
  "wf_Node (Node 0 1 2 (N_variant (Variant_ll 1))) \<and> wf_Node (Node 7 3 4 (N_children []))
   \<and> Node_assign (Node 0 1 2 (N_variant (Variant_ll 1))) (Node 7 3 4 (N_children []))
     = Some (Node 7 1 2 (N_children []))
   \<and> Node_assign_move (Node 0 1 2 (N_variant (Variant_ll 1))) (Node 7 3 4 (N_children []))
     = Some (Node 7 1 2 (N_children []), Node 7 3 4 (N_children []))
   \<and> Node_copy (Node 7 3 4 (N_children [])) = Some (Node 7 3 4 (N_children []))
   \<and> Node_move (Node 7 3 4 (N_children []))
     = Some (Node 7 3 4 (N_children []), Node 7 3 4 (N_children []))
   \<and> line (Node 7 1 2 (N_children [])) = line (Node 0 1 2 (N_variant (Variant_ll 1)))
   \<and> column (Node 7 1 2 (N_children [])) = column (Node 0 1 2 (N_variant (Variant_ll 1)))"
  using Node_assign_keeps_position [where this = "Node 0 1 2 (N_variant (Variant_ll 1))"
      and n = "Node 7 3 4 (N_children [])" and r = "Node 7 1 2 (N_children [])"
      and r' = "Node 7 1 2 (N_children [])" and n' = "Node 7 3 4 (N_children [])"
      and c = "Node 7 3 4 (N_children [])" and m = "Node 7 3 4 (N_children [])"
      and n'' = "Node 7 3 4 (N_children [])"]
  by (simp add: Node_assign_def Node_assign_move_def Node_move_def Variant_ll_def)

subsection \<open>Moving a descendant into its ancestor\<close>

lemmas store_eval = Node_assign_move_in_def vector_move_assign_def store0_def put_def release_def
  set_ctype_def set_cun_def move_twice_def Variant_move_def Variant_ll_def

text \<open>
  C4. In \<open>store0\<close> the branch at address 1 owns the branch at 2, which owns the leaf Int 5
  at 3. Moving the leaf at 3 into the node at 1 is safe: the Variant is moved into a
  local before the children are destroyed, and the node at 1 ends as the leaf Int 5.
  Moving the branch at 2 into the node at 1 has no such local: the operator calls
  \<^verbatim>\<open>children = move(n.children)\<close> while \<open>n\<close> is owned by \<^verbatim>\<open>children\<close>. Where the vector's move
  assignment releases the destination's elements first, \<open>n\<close> is destroyed before its
  children are read (\<open>None\<close>); where it takes the source's buffer first, the node at 1
  ends with the child 3.
\<close>

theorem Node_assign_move_descendant:
  "Node_assign_move_in Release_first store0 1 2 = None
   \<and> Node_assign_move_in Steal_first store0 1 2
     = Some [(1, Cell 8 10 11 (C_children [3])), (3, Cell 0 30 31 (C_variant (Variant_ll 5)))]
   \<and> Node_assign_move_in ord store0 1 3
     = Some [(1, Cell 0 10 11 (C_variant (Variant_ll 5)))]"
  by (simp add: store_eval)

end
